theory Spec2Isabelle
  imports Main "HOL-Library.Code_Target_Numeral"
begin

section \<open>Python strings\<close>

text \<open>
  A Python \<open>str\<close> is a sequence of Unicode code points, and \<open>len\<close> counts code points.
  The prompts and log messages of the program are Chinese, so a string is modelled as the
  list of its code points (natural numbers), not as a list of bytes.
\<close>

type_synonym pychar = nat
type_synonym pystr = "pychar list"

definition asc :: "string \<Rightarrow> pystr" where
  \<comment> \<open>an ASCII literal as code points\<close>
  "asc s = map of_char s"

section \<open>Exceptions, logging and the world outside the program\<close>

text \<open>
  An HTTP response as the \<open>requests\<close> library hands it over: the status code, the
  reason phrase and the body text.
\<close>

record http_response =
  status_code :: nat
  reason :: pystr
  body :: pystr

text \<open>
  The exceptions the program raises, catches or lets through. \<open>RequestException\<close> stands
  for \<open>requests.exceptions.RequestException\<close> and its subclasses; it carries the message
  and the \<open>response\<close> attribute (absent for a connection failure). \<open>RuntimeError\<close> stands
  for the errors of the PDF library. All of them are subclasses of \<open>Exception\<close>.
\<close>

datatype pyexn =
    ValueError pystr
  | KeyError pystr
  | IndexError pystr
  | TypeError pystr
  | JSONDecodeError pystr
  | RequestException pystr "http_response option"
  | RuntimeError pystr

fun exn_str :: "pyexn \<Rightarrow> pystr" where
  \<comment> \<open>\<open>str(e)\<close>; a \<open>KeyError\<close> carries the repr of the missing key\<close>
  "exn_str (ValueError m) = m"
| "exn_str (KeyError k) = k"
| "exn_str (IndexError m) = m"
| "exn_str (TypeError m) = m"
| "exn_str (JSONDecodeError m) = m"
| "exn_str (RequestException m r) = m"
| "exn_str (RuntimeError m) = m"

datatype level = INFO | WARNING | ERROR

text \<open>
  The effects of the program, made explicit: the records written to the logger, the
  number of document handles opened and closed so far, and the number of HTTP POST
  requests issued so far.
\<close>

record world =
  log :: "(level \<times> pystr) list"
  opened :: nat
  closed :: nat
  posts :: nat

definition logger :: "level \<Rightarrow> pystr \<Rightarrow> world \<Rightarrow> world" where
  "logger lv msg w = w\<lparr>log := log w @ [(lv, msg)]\<rparr>"

fun str_nat :: "nat \<Rightarrow> pystr" where
  \<comment> \<open>the decimal digits of a number, as an f-string prints it\<close>
  "str_nat n = (if n < 10 then [48 + n] else str_nat (n div 10) @ [48 + n mod 10])"

fun py_join :: "pystr \<Rightarrow> pystr list \<Rightarrow> pystr" where
  \<comment> \<open>\<open>sep.join(xs)\<close>\<close>
  "py_join sep [] = []"
| "py_join sep [x] = x"
| "py_join sep (x # y # ys) = x @ sep @ py_join sep (y # ys)"

section \<open>The text extractor (pdf_processor.py)\<close>

text \<open>
  What the libraries report about the file at a path:
  \<^item> \<open>magic_result\<close>: \<open>magic.Magic(mime=True).from_file(path)\<close>, the content type sniffed
    from the bytes of the file, or the exception it raises;
  \<^item> \<open>guessed_type\<close>: the first component of \<open>mimetypes.guess_type(path)\<close>, computed
    from the name of the file alone (\<open>None\<close> when the extension is unknown);
  \<^item> \<open>fitz_result\<close>: \<open>fitz.open(path)\<close>, the exception it raises or the document, a
    list of pages; a page is the outcome of its \<open>get_text()\<close>, the text or an exception.
\<close>

type_synonym page = "pyexn + pystr"

record pdf_file =
  magic_result :: "pyexn + pystr"
  guessed_type :: "pystr option"
  fitz_result :: "pyexn + page list"

definition application_pdf :: pystr where
  "application_pdf = asc ''application/pdf''"

definition msg_invalid_type :: pystr where
  "msg_invalid_type = [26080, 25928, 30340, 25991, 20214, 31867, 22411, 58, 32]"

definition msg_invalid_pdf :: pystr where
  "msg_invalid_pdf = [26080, 25928, 30340, 80, 68, 70, 25991, 20214, 58, 32]"

definition msg_validate_failed :: pystr where
  "msg_validate_failed = [80, 68, 70, 39564, 35777, 22833, 36133, 58, 32]"

definition msg_extract_failed :: pystr where
  "msg_extract_failed = [25991, 26412, 25552, 21462, 22833, 36133, 58, 32]"

definition msg_page_failed :: "nat \<Rightarrow> pyexn \<Rightarrow> pystr" where
  "msg_page_failed page_num e =
     [25552, 21462, 31532] @ str_nat (page_num + 1) @
     [39029, 25991, 26412, 26102, 20986, 38169, 58, 32] @ exn_str e"

definition fitz_open :: "world \<Rightarrow> world" where
  \<comment> \<open>a successful \<open>fitz.open\<close> hands out one more document handle\<close>
  "fitz_open w = w\<lparr>opened := opened w + 1\<rparr>"

definition doc_close :: "world \<Rightarrow> world" where
  "doc_close w = w\<lparr>closed := closed w + 1\<rparr>"

text \<open>
  \<open>validate_pdf\<close>. The body of the \<open>try\<close> either returns \<open>True\<close> or raises; the handler
  logs the exception and raises it again. \<open>has_magic\<close> is the module flag set by the
  import of the content-sniffing library.
\<close>

definition validate_body :: "bool \<Rightarrow> pdf_file \<Rightarrow> world \<Rightarrow> (pyexn + bool) \<times> world" where
  "validate_body has_magic f w =
     (if has_magic then
        (case magic_result f of
           Inl e \<Rightarrow> (Inl e, w)
         | Inr file_type \<Rightarrow>
             if file_type \<noteq> application_pdf
             then (Inl (ValueError (msg_invalid_type @ file_type)), w)
             else (Inr True, w))
      else
        (if guessed_type f \<noteq> Some application_pdf then
           (case fitz_result f of
              Inl e \<Rightarrow> (Inl (ValueError (msg_invalid_pdf @ exn_str e)), w)
            | Inr doc \<Rightarrow> (Inr True, doc_close (fitz_open w)))
         else (Inr True, w)))"

definition validate_pdf :: "bool \<Rightarrow> pdf_file \<Rightarrow> world \<Rightarrow> (pyexn + bool) \<times> world" where
  "validate_pdf has_magic f w =
     (case validate_body has_magic f w of
        (Inl e, w1) \<Rightarrow> (Inl e, logger ERROR (msg_validate_failed @ exn_str e) w1)
      | (Inr b, w1) \<Rightarrow> (Inr b, w1))"

text \<open>
  The page loop of \<open>extract_text\<close>: the text of a page is appended; a page whose
  \<open>get_text()\<close> raises is logged as a warning and contributes nothing.
\<close>

fun extract_pages :: "page list \<Rightarrow> nat \<Rightarrow> pystr list \<Rightarrow> world \<Rightarrow> pystr list \<times> world" where
  "extract_pages [] page_num text w = (text, w)"
| "extract_pages (Inr t # ps) page_num text w = extract_pages ps (page_num + 1) (text @ [t]) w"
| "extract_pages (Inl e # ps) page_num text w =
     extract_pages ps (page_num + 1) text (logger WARNING (msg_page_failed page_num e) w)"

text \<open>
  \<open>extract_text\<close>. The \<open>finally\<close> clause closes \<open>doc\<close> when the name is bound, that is
  when \<open>fitz.open\<close> of \<open>extract_text\<close> itself returned; when validation or the open
  raises, no handle of \<open>extract_text\<close> exists and the handler only logs and re-raises.
\<close>

definition extract_text :: "bool \<Rightarrow> pdf_file \<Rightarrow> world \<Rightarrow> (pyexn + pystr) \<times> world" where
  "extract_text has_magic f w =
     (case validate_pdf has_magic f w of
        (Inl e, w1) \<Rightarrow> (Inl e, logger ERROR (msg_extract_failed @ exn_str e) w1)
      | (Inr ok, w1) \<Rightarrow>
          (case fitz_result f of
             Inl e \<Rightarrow> (Inl e, logger ERROR (msg_extract_failed @ exn_str e) w1)
           | Inr doc \<Rightarrow>
               (case extract_pages doc 0 [] (fitz_open w1) of
                  (text, w2) \<Rightarrow> (Inr (py_join [10] text), doc_close w2))))"

section \<open>The pipeline client (api.py): truncation of the paper text\<close>




section \<open>JSON values and the decoder of the standard library\<close>

text \<open>
  The values \<open>json.loads\<close> produces. An object is a Python dictionary with string keys:
  a list of pairs with distinct keys, in insertion order. A float is kept as the text of
  the literal it was read from; its IEEE value is not modelled.
\<close>

datatype json =
    JNull
  | JBool bool
  | JInt int
  | JFloat pystr
  | JString pystr
  | JArray "json list"
  | JObject "(pystr \<times> json) list"

text \<open>
  The decoder, after \<open>json/decoder.py\<close> and \<open>json/scanner.py\<close>: whitespace is space,
  tab, newline and carriage return.
\<close>

definition is_ws :: "pychar \<Rightarrow> bool" where
  "is_ws c = (c = 32 \<or> c = 9 \<or> c = 10 \<or> c = 13)"

definition skip_ws :: "pystr \<Rightarrow> pystr" where
  "skip_ws s = dropWhile is_ws s"

definition is_digit :: "pychar \<Rightarrow> bool" where
  "is_digit c = (48 \<le> c \<and> c \<le> 57)"

text \<open>
  \<open>scanstring\<close> starts after the opening quote and returns the decoded string and the
  rest of the input after the closing quote. In strict mode a control character ends the
  scan with an error. A \<open>\u\<close> escape needs four hexadecimal digits; a high surrogate
  followed by the escape of a low surrogate is joined with it into one code point; a lone
  surrogate is kept as it is.
\<close>

definition hexval :: "pychar \<Rightarrow> nat option" where
  "hexval c =
     (if 48 \<le> c \<and> c \<le> 57 then Some (c - 48)
      else if 97 \<le> c \<and> c \<le> 102 then Some (c - 87)
      else if 65 \<le> c \<and> c \<le> 70 then Some (c - 55)
      else None)"

fun hex4 :: "pystr \<Rightarrow> nat option" where
  "hex4 [a, b, c, d] =
     (case (hexval a, hexval b, hexval c, hexval d) of
        (Some x, Some y, Some z, Some u) \<Rightarrow> Some (((x * 16 + y) * 16 + z) * 16 + u)
      | _ \<Rightarrow> None)"
| "hex4 s = None"

definition backslash :: "pychar \<Rightarrow> pychar option" where
  "backslash e =
     (if e = 34 then Some 34 else if e = 92 then Some 92 else if e = 47 then Some 47
      else if e = 98 then Some 8 else if e = 102 then Some 12 else if e = 110 then Some 10
      else if e = 114 then Some 13 else if e = 116 then Some 9 else None)"

definition cons_chr :: "pychar \<Rightarrow> (pystr \<times> pystr) option \<Rightarrow> (pystr \<times> pystr) option" where
  "cons_chr c r = map_option (\<lambda>(t, rest). (c # t, rest)) r"

function scanstring :: "pystr \<Rightarrow> (pystr \<times> pystr) option" where
  "scanstring [] = None"
| "scanstring (c # cs) =
     (if c = 34 then Some ([], cs)
      else if c = 92 then
        (case cs of
           [] \<Rightarrow> None
         | e # rest \<Rightarrow>
             if e \<noteq> 117 then
               (case backslash e of None \<Rightarrow> None | Some ch \<Rightarrow> cons_chr ch (scanstring rest))
             else
               (case hex4 (take 4 rest) of
                  None \<Rightarrow> None
                | Some uni \<Rightarrow>
                    if 55296 \<le> uni \<and> uni \<le> 56319 \<and> take 2 (drop 4 rest) = [92, 117] then
                      (case hex4 (take 4 (drop 6 rest)) of
                         None \<Rightarrow> None
                       | Some uni2 \<Rightarrow>
                           if 56320 \<le> uni2 \<and> uni2 \<le> 57343
                           then cons_chr (65536 + ((uni - 55296) * 1024 + (uni2 - 56320)))
                                  (scanstring (drop 10 rest))
                           else cons_chr uni (scanstring (drop 4 rest)))
                    else cons_chr uni (scanstring (drop 4 rest))))
      else if c < 32 then None
      else cons_chr c (scanstring cs))"
  by pat_completeness auto
termination
  by (relation "measure length") auto


text \<open>
  Numbers, after the pattern \<open>(-?(?:0|[1-9][0-9]*))(\.[0-9]+)?([eE][-+]?[0-9]+)?\<close>: an
  integer part, an optional fraction and an optional exponent. Without fraction and
  exponent the literal is an \<open>int\<close>, otherwise a \<open>float\<close>.
\<close>

fun nat_of_digits :: "pystr \<Rightarrow> nat \<Rightarrow> nat" where
  "nat_of_digits [] acc = acc"
| "nat_of_digits (d # ds) acc = nat_of_digits ds (acc * 10 + (d - 48))"

definition number_int :: "pystr \<Rightarrow> (pystr \<times> pystr) option" where
  \<comment> \<open>\<open>-?(0|[1-9][0-9]*)\<close>\<close>
  "number_int s =
     (let neg = (case s of [] \<Rightarrow> False | c # cs \<Rightarrow> c = 45);
          s1 = (if neg then tl s else s);
          sign = (if neg then [45] else [])
      in case s1 of
           [] \<Rightarrow> None
         | d # ds \<Rightarrow>
             if d = 48 then Some (sign @ [48], ds)
             else if 49 \<le> d \<and> d \<le> 57
             then Some (sign @ d # takeWhile is_digit ds, dropWhile is_digit ds)
             else None)"

definition number_frac :: "pystr \<Rightarrow> pystr \<times> pystr" where
  \<comment> \<open>\<open>(\.[0-9]+)?\<close>\<close>
  "number_frac s =
     (case s of
        [] \<Rightarrow> ([], s)
      | c # cs \<Rightarrow>
          if c = 46 \<and> takeWhile is_digit cs \<noteq> []
          then (c # takeWhile is_digit cs, dropWhile is_digit cs)
          else ([], s))"

definition number_exp :: "pystr \<Rightarrow> pystr \<times> pystr" where
  \<comment> \<open>\<open>([eE][-+]?[0-9]+)?\<close>\<close>
  "number_exp s =
     (case s of
        [] \<Rightarrow> ([], s)
      | c # cs \<Rightarrow>
          if c = 101 \<or> c = 69 then
            (let sg = (case cs of [] \<Rightarrow> [] | x # xs \<Rightarrow> if x = 45 \<or> x = 43 then [x] else []);
                 ds = drop (length sg) cs
             in if takeWhile is_digit ds \<noteq> []
                then (c # sg @ takeWhile is_digit ds, dropWhile is_digit ds)
                else ([], s))
          else ([], s))"

definition int_of_literal :: "pystr \<Rightarrow> int" where
  "int_of_literal s =
     (case s of
        [] \<Rightarrow> 0
      | c # cs \<Rightarrow> if c = 45 then - int (nat_of_digits cs 0) else int (nat_of_digits s 0))"

definition match_number :: "pystr \<Rightarrow> (json \<times> pystr) option" where
  "match_number s =
     (case number_int s of
        None \<Rightarrow> None
      | Some (integer, r1) \<Rightarrow>
          (case number_frac r1 of
             (frac, r2) \<Rightarrow>
               (case number_exp r2 of
                  (exp, r3) \<Rightarrow>
                    if frac \<noteq> [] \<or> exp \<noteq> []
                    then Some (JFloat (integer @ frac @ exp), r3)
                    else Some (JInt (int_of_literal integer), r3))))"

definition scan_constant :: "pystr \<Rightarrow> (json \<times> pystr) option" where
  "scan_constant s =
     (if take 4 s = asc ''null'' then Some (JNull, drop 4 s)
      else if take 4 s = asc ''true'' then Some (JBool True, drop 4 s)
      else if take 5 s = asc ''false'' then Some (JBool False, drop 5 s)
      else case match_number s of
             Some r \<Rightarrow> Some r
           | None \<Rightarrow>
               if take 3 s = asc ''NaN'' then Some (JFloat (asc ''NaN''), drop 3 s)
               else if take 8 s = asc ''Infinity'' then Some (JFloat (asc ''Infinity''), drop 8 s)
               else if take 9 s = asc ''-Infinity'' then Some (JFloat (asc ''-Infinity''), drop 9 s)
               else None)"

text \<open>
  \<open>dict(pairs)\<close>: a key that occurs again keeps its place and takes the later value.
\<close>

fun dict_set :: "pystr \<Rightarrow> json \<Rightarrow> (pystr \<times> json) list \<Rightarrow> (pystr \<times> json) list" where
  "dict_set k v [] = [(k, v)]"
| "dict_set k v ((k', v') # d) = (if k' = k then (k, v) # d else (k', v') # dict_set k v d)"

definition py_dict :: "(pystr \<times> json) list \<Rightarrow> (pystr \<times> json) list" where
  "py_dict pairs = foldl (\<lambda>d (k, v). dict_set k v d) [] pairs"

text \<open>
  \<open>parse_value\<close> is \<open>scan_once\<close> with \<open>JSONObject\<close> and \<open>JSONArray\<close> up to the first
  member or element; \<open>parse_members\<close> is the loop of \<open>JSONObject\<close>, entered after the
  opening quote of a key; \<open>parse_elems\<close> is the loop of \<open>JSONArray\<close>. Each returns the
  value and the rest of the input, or \<open>None\<close> where the decoder raises
  \<open>JSONDecodeError\<close>. The tests on lengths in the loops always succeed (see
  \<open>parse_value_shorter\<close> below); they make the recursion well-founded on the length
  of the input.
\<close>

function parse_value :: "pystr \<Rightarrow> (json \<times> pystr) option"
  and parse_members :: "pystr \<Rightarrow> ((pystr \<times> json) list \<times> pystr) option"
  and parse_elems :: "pystr \<Rightarrow> (json list \<times> pystr) option"
where
  "parse_value [] = None"
| "parse_value (c # cs) =
     (if c = 34 then map_option (\<lambda>(t, r). (JString t, r)) (scanstring cs)
      else if c = 123 then
        (case skip_ws cs of
           [] \<Rightarrow> None
         | d # r \<Rightarrow>
             if d = 125 then Some (JObject [], r)
             else if d = 34 then map_option (\<lambda>(ps, r'). (JObject (py_dict ps), r')) (parse_members r)
             else None)
      else if c = 91 then
        (case skip_ws cs of
           [] \<Rightarrow> None
         | d # r \<Rightarrow>
             if d = 93 then Some (JArray [], r)
             else map_option (\<lambda>(vs, r'). (JArray vs, r')) (parse_elems (d # r)))
      else scan_constant (c # cs))"
| "parse_members s =
     (case scanstring s of
        None \<Rightarrow> None
      | Some (key, r) \<Rightarrow>
          (case skip_ws r of
             [] \<Rightarrow> None
           | d # r1 \<Rightarrow>
               if d \<noteq> 58 then None
               else if length (skip_ws r1) < length s then
                 (case parse_value (skip_ws r1) of
                    None \<Rightarrow> None
                  | Some (v, r2) \<Rightarrow>
                      (case skip_ws r2 of
                         [] \<Rightarrow> None
                       | d2 # r3 \<Rightarrow>
                           if d2 = 125 then Some ([(key, v)], r3)
                           else if d2 \<noteq> 44 then None
                           else
                             (case skip_ws r3 of
                                [] \<Rightarrow> None
                              | d3 # r4 \<Rightarrow>
                                  if d3 \<noteq> 34 then None
                                  else if length r4 < length s
                                  then map_option (\<lambda>(ps, r'). ((key, v) # ps, r')) (parse_members r4)
                                  else None)))
               else None))"
| "parse_elems s =
     (case parse_value s of
        None \<Rightarrow> None
      | Some (v, r) \<Rightarrow>
          (case skip_ws r of
             [] \<Rightarrow> None
           | d # r1 \<Rightarrow>
               if d = 93 then Some ([v], r1)
               else if d \<noteq> 44 then None
               else if length (skip_ws r1) < length s
               then map_option (\<lambda>(vs, r'). (v # vs, r')) (parse_elems (skip_ws r1))
               else None))"
  by pat_completeness auto

termination
proof -
  have shorter: "\<And>cs d r. skip_ws cs = d # r \<Longrightarrow> length r < length cs"
  proof -
    fix cs d r
    assume "skip_ws cs = d # r"
    then have "length (d # r) \<le> length cs"
      using length_dropWhile_le [of is_ws cs] by (simp add: skip_ws_def)
    then show "length r < length cs" by simp
  qed
  show ?thesis
    by (relation "measure (\<lambda>x. case x of
           Inl s \<Rightarrow> 2 * length s
         | Inr (Inl s) \<Rightarrow> 2 * length s + 1
         | Inr (Inr s) \<Rightarrow> 2 * length s + 1)")
      (auto dest: shorter)
qed

declare parse_members.simps [simp del] parse_elems.simps [simp del]

text \<open>
  \<open>json.loads(s)\<close>: leading whitespace, one value, trailing whitespace, end of input.
  The limits of the interpreter (recursion depth, digits of an integer) are not modelled.
\<close>

definition json_loads :: "pystr \<Rightarrow> json option" where
  "json_loads s =
     (case parse_value (skip_ws s) of
        None \<Rightarrow> None
      | Some (v, r) \<Rightarrow> if skip_ws r = [] then Some v else None)"

section \<open>The pipeline client (api.py): the operations\<close>

definition msg_no_api_key :: pystr where
  \<comment> \<open>the message of the ValueError of line 21\<close>
  "msg_no_api_key =
     [26410, 35774, 32622, 68, 69, 69, 80, 83, 69, 69, 75, 95, 65, 80, 73, 95, 75, 69,
      89, 29615, 22659, 21464, 37327]"

definition default_api_url :: pystr where
  "default_api_url =
     [104, 116, 116, 112, 115, 58, 47, 47, 97, 112, 105, 46, 100, 101, 101, 112, 115,
      101, 101, 107, 46, 99, 111, 109, 47, 118, 49, 47, 99, 104, 97, 116, 47, 99, 111,
      109, 112, 108, 101, 116, 105, 111, 110, 115]"

definition msg_api_failed :: pystr where
  \<comment> \<open>line 44, before str(e)\<close>
  "msg_api_failed =
     [65, 80, 73, 35831, 27714, 22833, 36133, 58, 32]"

definition msg_status_code :: pystr where
  \<comment> \<open>line 46, before the status code\<close>
  "msg_status_code =
     [21709, 24212, 29366, 24577, 30721, 58, 32]"

definition msg_response_text :: pystr where
  \<comment> \<open>line 47, before the body of the response\<close>
  "msg_response_text =
     [21709, 24212, 20869, 23481, 58, 32]"
















subsection \<open>The client and the endpoint\<close>

record client =
  api_key :: pystr
  api_url :: pystr
  model :: pystr
  headers :: "(pystr \<times> pystr) list"

text \<open>
  \<open>DeepSeekAPI.__init__\<close>. The environment is a map from variable names to values;
  \<open>os.getenv\<close> is the lookup. \<open>not self.api_key\<close> holds for \<open>None\<close> and for the
  empty string. The constructor touches neither the network nor the logger.
\<close>

definition DeepSeekAPI_init :: "(pystr \<rightharpoonup> pystr) \<Rightarrow> world \<Rightarrow> (pyexn + client) \<times> world" where
  "DeepSeekAPI_init env w =
     (let key = env (asc ''DEEPSEEK_API_KEY'') in
      if key = None \<or> key = Some [] then (Inl (ValueError msg_no_api_key), w)
      else
        (Inr \<lparr>api_key = the key,
              api_url = (case env (asc ''DEEPSEEK_API_URL'') of
                           None \<Rightarrow> default_api_url | Some u \<Rightarrow> u),
              model = asc ''deepseek-chat'',
              headers = [(asc ''Content-Type'', asc ''application/json''),
                         (asc ''Authorization'', asc ''Bearer '' @ the key)]\<rparr>, w))"

record chat_message =
  msg_role :: pystr
  msg_content :: pystr

text \<open>
  One POST request: the URL, the headers and the three fields of the JSON payload. The
  temperature is a float literal of the source (\<open>0.7\<close> or \<open>0.3\<close>) and is kept as its
  text.
\<close>

record request =
  url :: pystr
  request_headers :: "(pystr \<times> pystr) list"
  payload_model :: pystr
  payload_messages :: "chat_message list"
  payload_temperature :: pystr

text \<open>
  What \<open>requests.post\<close> does with a request is decided by the network and the server:
  it raises a \<open>RequestException\<close> (connection failure, timeout, too many redirects;
  with or without a response attached) or it returns the response, whatever its status.
\<close>

datatype post_outcome =
    Post_fails pystr "http_response option"
  | Post_returns http_response

type_synonym endpoint = "request \<Rightarrow> post_outcome"

text \<open>
  \<open>Response.raise_for_status()\<close> of the \<open>requests\<close> library raises \<open>HTTPError\<close>, with
  the response attached, for a status code from 400 to 599, and returns for every other
  status. The truth value of a \<open>Response\<close> object is its \<open>ok\<close> property, which is true
  exactly when \<open>raise_for_status\<close> does not raise.
\<close>

definition raise_for_status :: "pystr \<Rightarrow> http_response \<Rightarrow> pystr option" where
  \<comment> \<open>the message of the \<open>HTTPError\<close> raised, or \<open>None\<close> when the call returns\<close>
  "raise_for_status u r =
     (if 400 \<le> status_code r \<and> status_code r < 500
      then Some (str_nat (status_code r) @ asc '' Client Error: '' @ reason r @
                 asc '' for url: '' @ u)
      else if 500 \<le> status_code r \<and> status_code r < 600
      then Some (str_nat (status_code r) @ asc '' Server Error: '' @ reason r @
                 asc '' for url: '' @ u)
      else None)"

definition response_ok :: "http_response \<Rightarrow> bool" where
  \<comment> \<open>\<open>bool(response)\<close>\<close>
  "response_ok r = (raise_for_status [] r = None)"

text \<open>
  \<open>_call_api\<close>. The handler of the \<open>try\<close> catches \<open>RequestException\<close> only; every
  exception the body can raise is one. It logs the message, then, when
  \<open>hasattr(e, 'response') and e.response\<close> is true, the status code and the body of the
  response, and raises the exception again. \<open>response.json()\<close> parses the body and raises
  the \<open>JSONDecodeError\<close> of \<open>requests\<close>, a \<open>RequestException\<close> without a response, when
  the body is not JSON.
\<close>

definition call_api_handler :: "pystr \<Rightarrow> http_response option \<Rightarrow> world \<Rightarrow> (pyexn + json) \<times> world" where
  "call_api_handler m r w =
     (let w1 = logger ERROR (msg_api_failed @ exn_str (RequestException m r)) w;
          w2 = (case r of
                  None \<Rightarrow> w1
                | Some resp \<Rightarrow>
                    if response_ok resp
                    then logger ERROR (msg_response_text @ body resp)
                           (logger ERROR (msg_status_code @ str_nat (status_code resp)) w1)
                    else w1)
      in (Inl (RequestException m r), w2))"

definition call_api :: "endpoint \<Rightarrow> client \<Rightarrow> chat_message list \<Rightarrow> pystr \<Rightarrow> world \<Rightarrow> (pyexn + json) \<times> world" where
  "call_api ep c messages temperature w =
     (let req = \<lparr>url = api_url c, request_headers = headers c, payload_model = model c,
                  payload_messages = messages, payload_temperature = temperature\<rparr>;
          w1 = w\<lparr>posts := posts w + 1\<rparr>
      in case ep req of
           Post_fails m r \<Rightarrow> call_api_handler m r w1
         | Post_returns resp \<Rightarrow>
             (case raise_for_status (api_url c) resp of
                Some m \<Rightarrow> call_api_handler m (Some resp) w1
              | None \<Rightarrow>
                  (case json_loads (body resp) of
                     None \<Rightarrow> call_api_handler (asc ''Expecting value'') None w1
                   | Some j \<Rightarrow> (Inr j, w1))))"

subsection \<open>Reading the reply out of the response\<close>






subsection \<open>analyze_paper and answer_question\<close>








subsection \<open>extract_key_points: the regular expressions\<close>













subsection \<open>extract_key_points: the recovery algorithm of the specification\<close>









subsection \<open>extract_key_points\<close>







subsection \<open>Concrete inputs\<close>







section \<open>Properties\<close>

subsection \<open>Truncation\<close>




subsection \<open>Text extraction\<close>

lemma extract_pages_text:
  "fst (extract_pages ps n acc w) = acc @ [t. Inr t \<leftarrow> ps]"
  by (induction ps n acc w rule: extract_pages.induct) simp_all



text \<open>
  Claim C4. When the file passes validation and the text extraction of exactly one page of
  the document throws, \<open>extract_text\<close> does not raise: it returns the texts of the
  remaining pages, in page order, joined by newlines.
\<close>

theorem extract_text_skips_failed_page:
  assumes "fst (validate_pdf has_magic f w) = Inr True"
    and "fitz_result f = Inr (map Inr pre @ [Inl e] @ map Inr post)"
  shows "fst (extract_text has_magic f w) = Inr (py_join [10] (pre @ post))"
proof -
  obtain w1 where v: "validate_pdf has_magic f w = (Inr True, w1)"
    using assms(1) by (cases "validate_pdf has_magic f w") simp
  have "[t. Inr t \<leftarrow> map Inr pre @ [Inl e] @ map Inr post] = pre @ post"
    by (induction pre) (simp_all, induction post, simp_all)
  then have "fst (extract_pages (map Inr pre @ [Inl e] @ map Inr post) 0 [] (fitz_open w1)) = pre @ post"
    by (simp add: extract_pages_text)
  then show ?thesis
    using v assms(2) by (auto simp add: extract_text_def split: prod.splits)
qed

theorem extract_text_skips_failed_page_witness:
  "fst (validate_pdf True
      \<lparr>magic_result = Inr application_pdf, guessed_type = Some application_pdf,
       fitz_result = Inr (map Inr [asc ''one'', asc ''two''] @ [Inl (RuntimeError (asc ''bad page''))] @
         map Inr [asc ''four''])\<rparr>
      \<lparr>log = [], opened = 0, closed = 0, posts = 0\<rparr>) = Inr True \<and>
   fst (extract_text True
      \<lparr>magic_result = Inr application_pdf, guessed_type = Some application_pdf,
       fitz_result = Inr (map Inr [asc ''one'', asc ''two''] @ [Inl (RuntimeError (asc ''bad page''))] @
         map Inr [asc ''four''])\<rparr>
      \<lparr>log = [], opened = 0, closed = 0, posts = 0\<rparr>) =
     Inr (asc ''one'' @ [10] @ asc ''two'' @ [10] @ asc ''four'')"
proof -
  let ?f = "\<lparr>magic_result = Inr application_pdf, guessed_type = Some application_pdf,
       fitz_result = Inr (map Inr [asc ''one'', asc ''two''] @ [Inl (RuntimeError (asc ''bad page''))] @
         map Inr [asc ''four''])\<rparr>"
  let ?w = "\<lparr>log = [], opened = 0, closed = 0, posts = 0\<rparr>"
  have v: "fst (validate_pdf True ?f ?w) = Inr True"
    by (simp add: validate_pdf_def validate_body_def)
  have o: "fitz_result ?f = Inr (map Inr [asc ''one'', asc ''two''] @
      [Inl (RuntimeError (asc ''bad page''))] @ map Inr [asc ''four''])"
    by simp
  show ?thesis
    using v extract_text_skips_failed_page [OF v o] by simp
qed



text \<open>
  Claim C5, as stated, fails: without the content-sniffing library the fallback trusts the
  name of the file, so a text file renamed to \<open>.pdf\<close> passes \<open>validate_pdf\<close>, and
  \<open>extract_text\<close> then fails with the error of the PDF library, not with the
  \<open>ValueError\<close> of the validation.
\<close>

theorem validate_pdf_accepts_renamed_text_file:
  "magic_result \<lparr>magic_result = Inr (asc ''text/plain''), guessed_type = Some application_pdf,
       fitz_result = Inl (RuntimeError (asc ''no objects found''))\<rparr> = Inr (asc ''text/plain'') \<and>
   asc ''text/plain'' \<noteq> application_pdf \<and>
   fst (validate_pdf False
      \<lparr>magic_result = Inr (asc ''text/plain''), guessed_type = Some application_pdf,
       fitz_result = Inl (RuntimeError (asc ''no objects found''))\<rparr>
      \<lparr>log = [], opened = 0, closed = 0, posts = 0\<rparr>) = Inr True \<and>
   fst (extract_text False
      \<lparr>magic_result = Inr (asc ''text/plain''), guessed_type = Some application_pdf,
       fitz_result = Inl (RuntimeError (asc ''no objects found''))\<rparr>
      \<lparr>log = [], opened = 0, closed = 0, posts = 0\<rparr>) =
     Inl (RuntimeError (asc ''no objects found''))"
  by (simp add: validate_pdf_def validate_body_def extract_text_def application_pdf_def asc_def)

text \<open>
  Claim C5, amended. Under the content-sniffing check, every file whose sniffed type is
  not \<open>application/pdf\<close> makes \<open>validate_pdf\<close> and \<open>extract_text\<close> fail with the
  \<open>ValueError\<close> of the validation, whatever the name of the file. Under the
  extension-based fallback they fail with that \<open>ValueError\<close> when the name does not
  guess to \<open>application/pdf\<close> and the PDF library cannot open the file; a file whose
  name guesses to \<open>application/pdf\<close> passes \<open>validate_pdf\<close> whatever its content, and
  \<open>extract_text\<close> then raises whatever the PDF library raises on opening it.
\<close>

theorem validate_pdf_non_pdf:
  "(magic_result f = Inr t \<and> t \<noteq> application_pdf \<longrightarrow>
      fst (validate_pdf True f w) = Inl (ValueError (msg_invalid_type @ t)) \<and>
      fst (extract_text True f w) = Inl (ValueError (msg_invalid_type @ t))) \<and>
   (guessed_type f \<noteq> Some application_pdf \<and> fitz_result f = Inl e \<longrightarrow>
      fst (validate_pdf False f w) = Inl (ValueError (msg_invalid_pdf @ exn_str e)) \<and>
      fst (extract_text False f w) = Inl (ValueError (msg_invalid_pdf @ exn_str e))) \<and>
   (guessed_type f = Some application_pdf \<longrightarrow>
      fst (validate_pdf False f w) = Inr True \<and>
      (fitz_result f = Inl e \<longrightarrow> fst (extract_text False f w) = Inl e))"
  by (simp add: validate_pdf_def validate_body_def extract_text_def)

theorem validate_pdf_non_pdf_witness:
  "fst (validate_pdf True
      \<lparr>magic_result = Inr (asc ''text/plain''), guessed_type = Some application_pdf,
       fitz_result = Inl (RuntimeError (asc ''no objects found''))\<rparr>
      \<lparr>log = [], opened = 0, closed = 0, posts = 0\<rparr>) =
     Inl (ValueError (msg_invalid_type @ asc ''text/plain'')) \<and>
   fst (extract_text True
      \<lparr>magic_result = Inr (asc ''text/plain''), guessed_type = Some application_pdf,
       fitz_result = Inl (RuntimeError (asc ''no objects found''))\<rparr>
      \<lparr>log = [], opened = 0, closed = 0, posts = 0\<rparr>) =
     Inl (ValueError (msg_invalid_type @ asc ''text/plain'')) \<and>
   fst (validate_pdf False
      \<lparr>magic_result = Inr (asc ''text/plain''), guessed_type = Some (asc ''text/plain''),
       fitz_result = Inl (RuntimeError (asc ''no objects found''))\<rparr>
      \<lparr>log = [], opened = 0, closed = 0, posts = 0\<rparr>) =
     Inl (ValueError (msg_invalid_pdf @ asc ''no objects found'')) \<and>
   fst (validate_pdf False
      \<lparr>magic_result = Inr application_pdf, guessed_type = Some application_pdf,
       fitz_result = Inr [Inr (asc ''page one'')]\<rparr>
      \<lparr>log = [], opened = 0, closed = 0, posts = 0\<rparr>) = Inr True"
  using
    validate_pdf_non_pdf [where f =
      "\<lparr>magic_result = Inr (asc ''text/plain''), guessed_type = Some application_pdf,
       fitz_result = Inl (RuntimeError (asc ''no objects found''))\<rparr>"
      and t = "asc ''text/plain''" and w = "\<lparr>log = [], opened = 0, closed = 0, posts = 0\<rparr>"]
    validate_pdf_non_pdf [where f =
      "\<lparr>magic_result = Inr (asc ''text/plain''), guessed_type = Some (asc ''text/plain''),
       fitz_result = Inl (RuntimeError (asc ''no objects found''))\<rparr>"
      and e = "RuntimeError (asc ''no objects found'')"
      and w = "\<lparr>log = [], opened = 0, closed = 0, posts = 0\<rparr>"]
    validate_pdf_non_pdf [where f =
      "\<lparr>magic_result = Inr application_pdf, guessed_type = Some application_pdf,
       fitz_result = Inr [Inr (asc ''page one'')]\<rparr>"
      and w = "\<lparr>log = [], opened = 0, closed = 0, posts = 0\<rparr>"]
  by (simp add: application_pdf_def asc_def)

subsection \<open>Client construction\<close>

text \<open>
  Claim C7. Constructing the client when no API key is configured (the variable is unset,
  or set to the empty string) fails at once with the \<open>ValueError\<close> of the constructor and
  leaves the world as it was: nothing is posted. The key is looked at by the constructor
  only: \<open>_call_api\<close> behaves the same whatever key the client holds.
\<close>

theorem init_without_key:
  "(env (asc ''DEEPSEEK_API_KEY'') = None \<or> env (asc ''DEEPSEEK_API_KEY'') = Some [] \<longrightarrow>
      DeepSeekAPI_init env w = (Inl (ValueError msg_no_api_key), w)) \<and>
   call_api ep (c\<lparr>api_key := k\<rparr>) messages temperature w = call_api ep c messages temperature w"
  by (simp add: DeepSeekAPI_init_def call_api_def Let_def split: post_outcome.splits)

theorem init_without_key_witness:
  "Map.empty (asc ''DEEPSEEK_API_KEY'') = None \<and>
   DeepSeekAPI_init Map.empty \<lparr>log = [], opened = 0, closed = 0, posts = 0\<rparr> =
     (Inl (ValueError msg_no_api_key), \<lparr>log = [], opened = 0, closed = 0, posts = 0\<rparr>) \<and>
   [asc ''DEEPSEEK_API_KEY'' \<mapsto> []] (asc ''DEEPSEEK_API_KEY'') = Some [] \<and>
   posts (snd (DeepSeekAPI_init [asc ''DEEPSEEK_API_KEY'' \<mapsto> []]
     \<lparr>log = [], opened = 0, closed = 0, posts = 0\<rparr>)) = 0"
  using init_without_key [of Map.empty "\<lparr>log = [], opened = 0, closed = 0, posts = 0\<rparr>"]
    init_without_key [of "[asc ''DEEPSEEK_API_KEY'' \<mapsto> []]"
      "\<lparr>log = [], opened = 0, closed = 0, posts = 0\<rparr>"]
  by simp

subsection \<open>The analysis type\<close>




subsection \<open>The call of the endpoint\<close>





subsection \<open>Propagation of errors\<close>







subsection \<open>JSON recovery\<close>






































end
